theory Spec2Isabelle
  imports Complex_Main
begin

section \<open>Float values and the arithmetic of the spec\<close>

text \<open>
  The value of a float: a finite number, one of the two infinities, or not-a-number.
  Modelled from the spec: the arithmetic of the moving average (package
  \<^verbatim>\<open>glide/pkg/routers/latency\<close> is not among the sources) is the one the spec writes,
  exact on finite values; an operation on an infinity or on NaN gives what the float
  operation gives. The division of \<^verbatim>\<open>Chat\<close> is not this one: it is the rounded
  division of the next section.
\<close>

datatype float64 = F64 real | PosInf | NegInf | NaN

fun fneg :: "float64 \<Rightarrow> float64" where
  "fneg (F64 x) = F64 (- x)"
| "fneg PosInf = NegInf"
| "fneg NegInf = PosInf"
| "fneg NaN = NaN"

fun fadd :: "float64 \<Rightarrow> float64 \<Rightarrow> float64" where
  "fadd NaN b = NaN"
| "fadd a NaN = NaN"
| "fadd (F64 x) (F64 y) = F64 (x + y)"
| "fadd PosInf NegInf = NaN"
| "fadd NegInf PosInf = NaN"
| "fadd PosInf b = PosInf"
| "fadd NegInf b = NegInf"
| "fadd (F64 x) b = b"

definition fsub :: "float64 \<Rightarrow> float64 \<Rightarrow> float64" where
  "fsub a b = fadd a (fneg b)"

text \<open>An infinity times or over a finite factor: the sign follows the factor's sign.\<close>

definition inf_signed :: "bool \<Rightarrow> float64" where
  "inf_signed positive = (if positive then PosInf else NegInf)"

fun fmul :: "float64 \<Rightarrow> float64 \<Rightarrow> float64" where
  "fmul NaN b = NaN"
| "fmul a NaN = NaN"
| "fmul (F64 x) (F64 y) = F64 (x * y)"
| "fmul PosInf (F64 y) = (if y = 0 then NaN else inf_signed (0 < y))"
| "fmul NegInf (F64 y) = (if y = 0 then NaN else inf_signed (y < 0))"
| "fmul (F64 x) PosInf = (if x = 0 then NaN else inf_signed (0 < x))"
| "fmul (F64 x) NegInf = (if x = 0 then NaN else inf_signed (x < 0))"
| "fmul PosInf PosInf = PosInf"
| "fmul NegInf NegInf = PosInf"
| "fmul PosInf NegInf = NegInf"
| "fmul NegInf PosInf = NegInf"

fun fdiv :: "float64 \<Rightarrow> float64 \<Rightarrow> float64" where
  "fdiv NaN b = NaN"
| "fdiv a NaN = NaN"
| "fdiv (F64 x) (F64 y) =
     (if y = 0 then (if x = 0 then NaN else inf_signed (0 < x)) else F64 (x / y))"
| "fdiv PosInf (F64 y) = inf_signed (0 \<le> y)"
| "fdiv NegInf (F64 y) = inf_signed (y < 0)"
| "fdiv (F64 x) b = F64 0"
| "fdiv a b = NaN"

section \<open>The float64 of Go and its division\<close>

text \<open>
  A \<^verbatim>\<open>float64\<close> of the program (IEEE 754 binary64): a value as above, where
  \<open>Float (F64 0)\<close> is the positive zero, or the negative zero. Finite values are not
  restricted to the representable ones: the operations below round their results, and
  accept any finite operand.
\<close>

datatype go_float64 = Float float64 | NegZero

text \<open>The value of a float: both zeros are the number 0.\<close>

fun float64_value :: "go_float64 \<Rightarrow> float64" where
  "float64_value (Float v) = v"
| "float64_value NegZero = F64 0"

fun signbit :: "go_float64 \<Rightarrow> bool" where
  "signbit NegZero = True"
| "signbit (Float (F64 x)) = (x < 0)"
| "signbit (Float NegInf) = True"
| "signbit (Float PosInf) = False"
| "signbit (Float NaN) = False"

definition is_nan :: "go_float64 \<Rightarrow> bool" where
  "is_nan g = (g = Float NaN)"

definition is_inf :: "go_float64 \<Rightarrow> bool" where
  "is_inf g = (g = Float PosInf \<or> g = Float NegInf)"

definition is_zero :: "go_float64 \<Rightarrow> bool" where
  "is_zero g = (g = Float (F64 0) \<or> g = NegZero)"

fun finite_value :: "go_float64 \<Rightarrow> real" where
  "finite_value (Float (F64 x)) = x"
| "finite_value g = 0"

definition signed_zero :: "bool \<Rightarrow> go_float64" where
  "signed_zero negative = (if negative then NegZero else Float (F64 0))"

definition signed_inf :: "bool \<Rightarrow> go_float64" where
  "signed_inf negative = Float (inf_signed (\<not> negative))"

text \<open>
  Rounding to the nearest float64, ties to even. A float64 has 53 significant bits and
  binary exponents from -1022 to 1023: around a number of magnitude \<open>a\<close> the floats are
  the multiples of \<open>ulp64 a\<close>, which is \<open>2 ^ (e - 52)\<close> for the binary exponent \<open>e\<close> of
  \<open>a\<close>, and \<open>2 ^ -1074\<close> below the smallest normal number. A result of magnitude
  \<open>2 ^ 1024\<close> or more is an infinity; a result that rounds to zero keeps its sign.
\<close>

definition pow2 :: "int \<Rightarrow> real" where
  "pow2 k = (if 0 \<le> k then 2 ^ nat k else 1 / 2 ^ nat (- k))"

definition round_half_even :: "real \<Rightarrow> int" where
  "round_half_even x =
     (let f = \<lfloor>x\<rfloor>; d = x - of_int f
      in if d < 1 / 2 then f else if 1 / 2 < d then f + 1
         else if even f then f else f + 1)"

definition ulp64 :: "real \<Rightarrow> real" where
  "ulp64 a = pow2 (max \<lfloor>log 2 a\<rfloor> (- 1022) - 52)"

definition round64 :: "real \<Rightarrow> go_float64" where
  "round64 x =
     (if x = 0 then Float (F64 0)
      else let y = of_int (round_half_even (\<bar>x\<bar> / ulp64 \<bar>x\<bar>)) * ulp64 \<bar>x\<bar>
           in if pow2 1024 \<le> y then signed_inf (x < 0)
              else if y = 0 then signed_zero (x < 0)
              else Float (F64 (if x < 0 then - y else y)))"

text \<open>
  \<^verbatim>\<open>float64(d)\<close> for a \<^verbatim>\<open>time.Duration\<close> \<^verbatim>\<open>d\<close> (an int64 count of nanoseconds):
  the nearest float64, which is \<open>d\<close> itself up to \<open>2 ^ 53\<close>.
\<close>

definition float64_of_duration :: "int \<Rightarrow> go_float64" where
  "float64_of_duration d = round64 (real_of_int d)"

text \<open>
  The operator \<^verbatim>\<open>/\<close> on two \<^verbatim>\<open>float64\<close>. It never panics. NaN operands, the
  quotient of two infinities and the quotient of two zeros give NaN; an infinite
  dividend, or a zero divisor under a non-zero dividend, gives an infinity; an infinite
  divisor or a zero dividend gives a zero; the sign of these results is negative when
  the signs of the operands differ. Otherwise the result is the quotient of the two
  numbers, rounded.
\<close>

definition float64_div :: "go_float64 \<Rightarrow> go_float64 \<Rightarrow> go_float64" where
  "float64_div a b =
     (if is_nan a \<or> is_nan b then Float NaN
      else if is_inf a
        then (if is_inf b then Float NaN else signed_inf (signbit a \<noteq> signbit b))
      else if is_inf b then signed_zero (signbit a \<noteq> signbit b)
      else if is_zero b
        then (if is_zero a then Float NaN else signed_inf (signbit a \<noteq> signbit b))
      else if is_zero a then signed_zero (signbit a \<noteq> signbit b)
      else round64 (finite_value a / finite_value b))"

section \<open>latency.MovingAverage\<close>

text \<open>
  Modelled from the spec: package \<^verbatim>\<open>glide/pkg/routers/latency\<close> (the type
  \<^verbatim>\<open>MovingAverage\<close>, its constructor and \<^verbatim>\<open>Add\<close>, and \<^verbatim>\<open>Config\<close>) is not among
  the sources. The spec gives the attributes decay, warmupSamples, count and value, and
  the update rule of \<^verbatim>\<open>add\<close>; a new average has seen no sample and holds the zero
  value. The attribute value, in nanoseconds per response token, is the field \<open>valueNs\<close>.
\<close>

record MovingAverage =
  decay :: float64
  warmupSamples :: nat
  count :: nat
  valueNs :: float64

text \<open>
  Modelled from the spec: \<^verbatim>\<open>latency.NewMovingAverage(decay, warmupSamples)\<close>, absent
  from the sources; no sample seen yet, the value is the zero value of a float.
\<close>

definition NewMovingAverage :: "float64 \<Rightarrow> nat \<Rightarrow> MovingAverage" where
  "NewMovingAverage d w = \<lparr>decay = d, warmupSamples = w, count = 0, valueNs = F64 0\<rparr>"

text \<open>
  Modelled from the spec: \<^verbatim>\<open>MovingAverage.Add(sample)\<close>, absent from the sources. If
  \<^verbatim>\<open>count < warmupSamples\<close>, the arithmetic mean
  \<^verbatim>\<open>value + (sample - value)/(count+1)\<close>; else
  \<^verbatim>\<open>value*(1 - decay) + sample*decay\<close>. Always \<^verbatim>\<open>count + 1\<close>.
\<close>

definition Add :: "MovingAverage \<Rightarrow> float64 \<Rightarrow> MovingAverage" where
  "Add ma sample =
     ma\<lparr>valueNs :=
          (if count ma < warmupSamples ma
           then fadd (valueNs ma)
                  (fdiv (fsub sample (valueNs ma)) (F64 (real (count ma + 1))))
           else fadd (fmul (valueNs ma) (fsub (F64 1) (decay ma)))
                  (fmul sample (decay ma))),
        count := count ma + 1\<rparr>"

text \<open>
  Modelled from the spec: \<^verbatim>\<open>latency.Config\<close>, absent from the sources; the three
  fields are the ones \<^verbatim>\<open>NewLangModel\<close> reads.
\<close>

record Config =
  Decay :: float64
  WarmupSamples :: nat
  UpdateInterval :: "int option"

section \<open>health.TokenBucket\<close>

text \<open>
  Modelled from the spec: package \<^verbatim>\<open>glide/pkg/routers/health\<close> (\<^verbatim>\<open>TokenBucket\<close>,
  \<^verbatim>\<open>RateLimitTracker\<close>, \<^verbatim>\<open>ErrorBudget\<close>) is not among the sources. The bucket has a
  capacity, a refill interval in microseconds, the current tokens and the instant of the
  last refill in nanoseconds; it starts full. Every operation reads the clock: the
  reading is the argument \<open>now\<close>. The number of tokens to take is unsigned.
\<close>

record TokenBucket =
  capacity :: int
  refillIntervalMicros :: int
  tokens :: int
  lastRefillNs :: int

text \<open>
  Modelled from the spec: \<^verbatim>\<open>health.NewTokenBucket(timePerTokenMicro, budget)\<close>, absent
  from the sources; the bucket starts full, its last refill is the instant of its creation.
\<close>

definition NewTokenBucket :: "int \<Rightarrow> int \<Rightarrow> int \<Rightarrow> TokenBucket" where
  "NewTokenBucket timePerTokenMicro budget now =
     \<lparr>capacity = budget, refillIntervalMicros = timePerTokenMicro,
      tokens = budget, lastRefillNs = now\<rparr>"

definition refillIntervalNs :: "TokenBucket \<Rightarrow> int" where
  "refillIntervalNs b = refillIntervalMicros b * 1000"

text \<open>
  Modelled from the spec: \<^verbatim>\<open>refill()\<close> of the token bucket, absent from the sources:
  the whole tokens earned since the last refill, clamped to the capacity;
  the instant of the last refill advances by the time those tokens took. The spec says
  nothing of a zero interval; the quotient is then 0 here and no token is earned.
\<close>

definition refill :: "TokenBucket \<Rightarrow> int \<Rightarrow> TokenBucket" where
  "refill b now =
     (let newTokens = (now - lastRefillNs b) div refillIntervalNs b
      in if newTokens > 0
         then b\<lparr>tokens := min (capacity b) (tokens b + newTokens),
                lastRefillNs := lastRefillNs b + newTokens * refillIntervalNs b\<rparr>
         else b)"

text \<open>
  Modelled from the spec: \<^verbatim>\<open>TokenBucket.Take(n)\<close>, absent from the sources: succeeds iff after refilling there are at least \<open>n\<close> tokens, then
  deducts them; otherwise false and no state change.
\<close>

definition Take :: "TokenBucket \<Rightarrow> nat \<Rightarrow> int \<Rightarrow> TokenBucket \<times> bool" where
  "Take b n now =
     (let b' = refill b now
      in if tokens b' \<ge> int n then (b'\<lparr>tokens := tokens b' - int n\<rparr>, True)
         else (b, False))"

text \<open>
  Modelled from the spec: \<^verbatim>\<open>TokenBucket.HasTokens()\<close>, absent from the sources: lazy
  refill, then \<^verbatim>\<open>tokens > 0\<close>.
\<close>

definition HasTokens :: "TokenBucket \<Rightarrow> int \<Rightarrow> TokenBucket \<times> bool" where
  "HasTokens b now = (let b' = refill b now in (b', tokens b' > 0))"

text \<open>
  Modelled from the spec: \<^verbatim>\<open>health.ErrorBudget\<close>, absent from the sources: the budget
  (a number of tokens) and the time per token that \<^verbatim>\<open>NewLangModel\<close> reads from it.
\<close>

record ErrorBudget =
  TimePerTokenMicro :: int
  Budget :: int

text \<open>The operations a caller can perform on a bucket, each at its own clock reading.\<close>

datatype bucket_op = OpTake nat | OpHasTokens

fun bucket_step :: "TokenBucket \<Rightarrow> int \<times> bucket_op \<Rightarrow> TokenBucket" where
  "bucket_step b (now, OpTake n) = fst (Take b n now)"
| "bucket_step b (now, OpHasTokens) = fst (HasTokens b now)"

text \<open>The states a bucket goes through: the initial one, then one after each operation.\<close>

fun bucket_states :: "TokenBucket \<Rightarrow> (int \<times> bucket_op) list \<Rightarrow> TokenBucket list" where
  "bucket_states b [] = [b]"
| "bucket_states b (x # xs) = b # bucket_states (bucket_step b x) xs"

section \<open>health.RateLimitTracker\<close>

text \<open>
  Modelled from the spec: \<^verbatim>\<open>health.RateLimitTracker\<close> with \<^verbatim>\<open>NewRateLimitTracker\<close>,
  \<^verbatim>\<open>SetLimited\<close> and \<^verbatim>\<open>Limited\<close>, absent from the sources. The tracker holds an
  optional instant \<open>resetAt\<close>, none
  meaning not limited. \<^verbatim>\<open>setLimited(d)\<close> sets it to now + d; \<^verbatim>\<open>limited()\<close> is true
  while it is in the future, and an expired tracker clears itself.
\<close>

record RateLimitTracker =
  resetAt :: "int option"

definition NewRateLimitTracker :: RateLimitTracker where
  "NewRateLimitTracker = \<lparr>resetAt = None\<rparr>"

definition SetLimited :: "RateLimitTracker \<Rightarrow> int \<Rightarrow> int \<Rightarrow> RateLimitTracker" where
  "SetLimited r d now = r\<lparr>resetAt := Some (now + d)\<rparr>"

definition Limited :: "RateLimitTracker \<Rightarrow> int \<Rightarrow> RateLimitTracker \<times> bool" where
  "Limited r now =
     (case resetAt r of
        None \<Rightarrow> (r, False)
      | Some t \<Rightarrow> if t > now then (r, True) else (r\<lparr>resetAt := None\<rparr>, False))"

section \<open>Errors and responses\<close>

text \<open>
  An error value of Go: a \<^verbatim>\<open>*clients.RateLimitError\<close>, any other error, or an error
  wrapping another one. Modelled from the spec: the type \<^verbatim>\<open>clients.RateLimitError\<close>
  is absent from the sources; it carries the duration that \<^verbatim>\<open>UntilReset()\<close> returns.
  \<^verbatim>\<open>errors.As(err, &rle)\<close> walks the chain of wrapped errors and stops at the first
  rate-limit error.
\<close>

datatype error = RateLimitError int | OtherError string | Wrapped string error

fun errors_As_RateLimitError :: "error \<Rightarrow> int option" where
  "errors_As_RateLimitError (RateLimitError untilReset) = Some untilReset"
| "errors_As_RateLimitError (OtherError msg) = None"
| "errors_As_RateLimitError (Wrapped msg e) = errors_As_RateLimitError e"

text \<open>
  \<^verbatim>\<open>schemas.UnifiedChatResponse\<close>, whose declaration is absent from the sources: the
  two fields that \<^verbatim>\<open>Chat\<close> touches, \<^verbatim>\<open>ModelID\<close> and
  \<^verbatim>\<open>ModelResponse.TokenUsage.ResponseTokens\<close> (a \<^verbatim>\<open>float64\<close>, as the division in
  \<^verbatim>\<open>Chat\<close> requires); every other field of the response is in the extension part of the record.
\<close>

record TokenUsage =
  ResponseTokens :: go_float64

record ProviderResponse =
  TokenUsage :: TokenUsage

record UnifiedChatResponse =
  ModelID :: string
  ModelResponse :: ProviderResponse

section \<open>LangModel\<close>

text \<open>
  The struct \<^verbatim>\<open>LangModel\<close>. The provider client is an opaque handle: its \<^verbatim>\<open>Chat\<close>
  is a network call, whose outcome is an argument of the model's \<^verbatim>\<open>Chat\<close> below.
\<close>

record 'p LangModel =
  modelID :: string
  weight :: int
  client :: 'p
  rateLimit :: RateLimitTracker
  errorBudget :: TokenBucket
  latency :: MovingAverage
  latencyUpdateInterval :: "int option"

definition NewLangModel ::
  "string \<Rightarrow> 'p \<Rightarrow> ErrorBudget \<Rightarrow> Config \<Rightarrow> int \<Rightarrow> int \<Rightarrow> 'p LangModel" where
  "NewLangModel mid cl budget latencyConfig w now =
     \<lparr>modelID = mid,
      weight = w,
      client = cl,
      rateLimit = NewRateLimitTracker,
      errorBudget = NewTokenBucket (TimePerTokenMicro budget) (Budget budget) now,
      latency = NewMovingAverage (Decay latencyConfig) (WarmupSamples latencyConfig),
      latencyUpdateInterval = UpdateInterval latencyConfig\<rparr>"

text \<open>
  \<^verbatim>\<open>Healthy\<close>: \<^verbatim>\<open>!m.rateLimit.Limited() && m.errorBudget.HasTokens()\<close>. Both
  calls read the clock (\<open>t1\<close>, then \<open>t2\<close>) and may update their tracker; \<^verbatim>\<open>&&\<close> does
  not evaluate its right side when the left side is false.
\<close>

definition Healthy :: "'p LangModel \<Rightarrow> int \<Rightarrow> int \<Rightarrow> 'p LangModel \<times> bool" where
  "Healthy m t1 t2 =
     (let (rl, lim) = Limited (rateLimit m) t1
      in if lim then (m\<lparr>rateLimit := rl\<rparr>, False)
         else let (eb, has) = HasTokens (errorBudget m) t2
              in (m\<lparr>rateLimit := rl, errorBudget := eb\<rparr>, has))"

text \<open>
  \<^verbatim>\<open>Chat\<close>. The arguments are the pair \<^verbatim>\<open>(resp, err)\<close> that
  \<^verbatim>\<open>m.client.Chat(ctx, request)\<close> returned (a nil pointer or nil error is \<open>None\<close>),
  the duration \<^verbatim>\<open>time.Since(startedAt)\<close> in nanoseconds, and the clock reading of the
  health trackers. With a nil error and a nil response, reading
  \<^verbatim>\<open>resp.ModelResponse\<close> panics. The sample handed to \<^verbatim>\<open>Add\<close> is the value of
  the float quotient \<^verbatim>\<open>float64(time.Since(startedAt)) / ResponseTokens\<close>.
\<close>

datatype panic = NilPointerDereference

definition Chat ::
  "'p LangModel \<Rightarrow> 'z UnifiedChatResponse_scheme option \<times> error option \<Rightarrow> int \<Rightarrow> int \<Rightarrow>
     panic + ('p LangModel \<times> 'z UnifiedChatResponse_scheme option \<times> error option)" where
  "Chat m outcome elapsed now =
     (case outcome of
        (resp, None) \<Rightarrow>
          (case resp of
             None \<Rightarrow> Inl NilPointerDereference
           | Some r \<Rightarrow>
               Inr (m\<lparr>latency :=
                        Add (latency m)
                          (float64_value
                             (float64_div (float64_of_duration elapsed)
                                (ResponseTokens (TokenUsage (ModelResponse r)))))\<rparr>,
                    Some (r\<lparr>ModelID := modelID m\<rparr>),
                    None))
      | (resp, Some err) \<Rightarrow>
          (case errors_As_RateLimitError err of
             Some untilReset \<Rightarrow>
               Inr (m\<lparr>rateLimit := SetLimited (rateLimit m) untilReset now\<rparr>, resp, Some err)
           | None \<Rightarrow>
               Inr (m\<lparr>errorBudget := fst (Take (errorBudget m) 1 now)\<rparr>, resp, Some err)))"

section \<open>Concrete models and responses\<close>

text \<open>
  A model \<^verbatim>\<open>A\<close> with an error budget of 10 tokens, one per second, and a latency
  average with decay 0.1 and three warm-up samples, built at instant 0; and a response
  that reports no response token.
\<close>

definition example_model :: "unit LangModel" where
  "example_model =
     NewLangModel ''A'' () \<lparr>TimePerTokenMicro = 1000000, Budget = 10\<rparr>
       \<lparr>Decay = F64 (1 / 10), WarmupSamples = 3, UpdateInterval = None\<rparr> 1 0"

definition empty_reply :: UnifiedChatResponse where
  "empty_reply =
     \<lparr>ModelID = [], ModelResponse = \<lparr>TokenUsage = \<lparr>ResponseTokens = Float (F64 0)\<rparr>\<rparr>\<rparr>"

definition limited_model :: "unit LangModel" where
  "limited_model = example_model\<lparr>rateLimit := \<lparr>resetAt = Some 10000000500\<rparr>\<rparr>"

text \<open>
  A model built with the empty string as its id; a response of 100 response tokens; and
  the bucket of the spec's boundary example, capacity 1 and one token per second.
\<close>

definition anonymous_model :: "unit LangModel" where
  "anonymous_model =
     NewLangModel [] () \<lparr>TimePerTokenMicro = 1000000, Budget = 10\<rparr>
       \<lparr>Decay = F64 (1 / 10), WarmupSamples = 3, UpdateInterval = None\<rparr> 1 0"

definition full_reply :: UnifiedChatResponse where
  "full_reply =
     \<lparr>ModelID = [], ModelResponse = \<lparr>TokenUsage = \<lparr>ResponseTokens = Float (F64 100)\<rparr>\<rparr>\<rparr>"

definition small_bucket :: TokenBucket where
  "small_bucket = NewTokenBucket 1000000 1 0"

text \<open>A model built like \<open>example_model\<close>, with an error budget of no token.\<close>

definition no_budget_model :: "unit LangModel" where
  "no_budget_model =
     NewLangModel ''A'' () \<lparr>TimePerTokenMicro = 1000000, Budget = 0\<rparr>
       \<lparr>Decay = F64 (1 / 10), WarmupSamples = 3, UpdateInterval = None\<rparr> 1 0"

section \<open>Rounding\<close>

lemma pow2_powr: "2 powr real_of_int k = pow2 k"
  by (simp add: pow2_def powr_real_of_int inverse_eq_divide)

lemma pow2_pos: "0 < pow2 k"
  by (simp add: pow2_def)

lemma pow2_mono: "j \<le> k \<Longrightarrow> pow2 j \<le> pow2 k"
  using powr_mono [of "real_of_int j" "real_of_int k" 2] by (simp add: pow2_powr)

lemma ulp64_eq:
  assumes "pow2 e \<le> a" and "a < pow2 (e + 1)" and "- 1022 \<le> e"
  shows "ulp64 a = pow2 (e - 52)"
proof -
  have pos: "0 < a" using assms(1) pow2_pos [of e] by linarith
  have "2 powr real_of_int e \<le> a \<and> a < 2 powr real_of_int (e + 1)"
    using assms by (simp only: pow2_powr)
  then have "\<lfloor>log 2 a\<rfloor> = e"
    using floor_log_eq_powr_iff [of a 2 e] pos by simp
  with assms(3) show ?thesis by (simp add: ulp64_def max_def)
qed

lemma round_half_even_of_int: "round_half_even (of_int n) = n"
  by (simp add: round_half_even_def)

text \<open>A multiple of its own unit in the last place, within the exponent range, is a float.\<close>

lemma round64_representable:
  assumes "pow2 e \<le> a" and "a < pow2 (e + 1)" and "- 1022 \<le> e" and "e \<le> 1023"
    and "a = of_int n * pow2 (e - 52)"
  shows "round64 a = Float (F64 a)" and "round64 (- a) = Float (F64 (- a))"
proof -
  have pos: "0 < a" using assms(1) pow2_pos [of e] by linarith
  have u: "ulp64 a = pow2 (e - 52)" using ulp64_eq [OF assms(1-3)] .
  have q: "a / pow2 (e - 52) = of_int n"
    using assms(5) pow2_pos [of "e - 52"] by simp
  have y: "of_int (round_half_even (a / ulp64 a)) * ulp64 a = a"
    by (simp only: u q round_half_even_of_int assms(5) [symmetric])
  have "pow2 (e + 1) \<le> pow2 1024"
    using assms(4) pow2_mono [of "e + 1" 1024] by simp
  with assms(2) have lt: "a < pow2 1024" by linarith
  show "round64 a = Float (F64 a)"
    using pos lt by (simp add: round64_def y Let_def)
  show "round64 (- a) = Float (F64 (- a))"
    using pos lt by (simp add: round64_def y Let_def)
qed

text \<open>An integer of magnitude at most \<open>2 ^ 53\<close> is a float.\<close>

lemma round64_int_exact:
  fixes n :: int
  assumes "1 \<le> n" and "n \<le> 2 ^ 53"
  shows "round64 (of_int n) = Float (F64 (of_int n))"
    and "round64 (- of_int n) = Float (F64 (- of_int n))"
proof -
  define a :: real where "a = of_int n"
  define e where "e = \<lfloor>log 2 a\<rfloor>"
  have a1: "1 \<le> a" using assms(1) by (simp add: a_def)
  have a53: "a \<le> 2 ^ 53"
  proof -
    have "real_of_int n \<le> real_of_int (2 ^ 53)" using assms(2) by (simp only: of_int_le_iff)
    then show ?thesis by (simp add: a_def)
  qed
  have bounds: "pow2 e \<le> a \<and> a < pow2 (e + 1)"
    using floor_log_eq_powr_iff [of a 2 e] a1 by (simp add: e_def pow2_powr [symmetric])
  have e0: "0 \<le> e"
    using a1 by (simp add: e_def)
  have e53: "e \<le> 53"
  proof (rule ccontr)
    assume "\<not> e \<le> 53"
    then have "pow2 54 \<le> pow2 e" by (simp add: pow2_mono)
    moreover have "(2::real) ^ 53 < pow2 54" by (simp add: pow2_def)
    ultimately show False using bounds a53 by linarith
  qed
  have rep: "\<exists>k. a = of_int k * pow2 (e - 52)"
  proof (cases "e \<le> 52")
    case True
    have "a = of_int (n * 2 ^ nat (52 - e)) * pow2 (e - 52)"
    proof (cases "e = 52")
      case True
      then show ?thesis by (simp add: pow2_def a_def)
    next
      case False
      with \<open>e \<le> 52\<close> have "e - 52 < 0" by simp
      then show ?thesis by (simp add: pow2_def a_def)
    qed
    then show ?thesis by blast
  next
    case False
    with e53 have e: "e = 53" by simp
    with bounds a53 have "a = 2 ^ 53" by (simp add: pow2_def)
    then have "a = of_int (2 ^ 52) * pow2 (e - 52)" by (simp add: e pow2_def)
    then show ?thesis by blast
  qed
  then obtain k where k: "a = of_int k * pow2 (e - 52)" by blast
  have lo: "- 1022 \<le> e" and hi: "e \<le> 1023" using e0 e53 by simp_all
  from round64_representable [OF conjunct1 [OF bounds] conjunct2 [OF bounds] lo hi k]
  show "round64 (of_int n) = Float (F64 (of_int n))"
    and "round64 (- of_int n) = Float (F64 (- of_int n))"
    by (simp_all add: a_def)
qed

lemma float64_of_duration_exact:
  assumes "d \<noteq> 0" and "\<bar>d\<bar> \<le> 2 ^ 53"
  shows "float64_of_duration d = Float (F64 (real_of_int d))"
proof (cases "0 < d")
  case True
  with assms round64_int_exact(1) [of d] show ?thesis
    by (simp add: float64_of_duration_def)
next
  case False
  with assms have "1 \<le> - d" and "- d \<le> 2 ^ 53" by simp_all
  from round64_int_exact(2) [OF this] show ?thesis
    by (simp add: float64_of_duration_def)
qed

lemma float64_of_200ms: "float64_of_duration 200000000 = Float (F64 200000000)"
  using float64_of_duration_exact [of 200000000] by simp

lemma round64_2000000: "round64 2000000 = Float (F64 2000000)"
  using round64_int_exact(1) [of 2000000] by simp

text \<open>200 ms over zero tokens, and over 100 tokens.\<close>

lemma sample_200ms_no_token:
  "float64_value (float64_div (float64_of_duration 200000000) (Float (F64 0))) = PosInf"
  by (simp add: float64_of_200ms float64_div_def is_nan_def is_inf_def is_zero_def
      signed_inf_def inf_signed_def)

lemma sample_200ms_100_tokens:
  "float64_value (float64_div (float64_of_duration 200000000) (Float (F64 100)))
     = F64 2000000"
  by (simp add: float64_of_200ms float64_div_def is_nan_def is_inf_def is_zero_def
      round64_2000000)

text \<open>A division by a zero of either sign gives an infinity or NaN.\<close>

lemma float64_div_zero:
  "is_zero b \<Longrightarrow> is_nan (float64_div a b) \<or> is_inf (float64_div a b)"
  by (auto simp: float64_div_def is_zero_def is_nan_def is_inf_def signed_inf_def
      inf_signed_def)

section \<open>The three outcomes of Chat\<close>

lemma Chat_success:
  "Chat m (Some r, None) elapsed now =
     Inr (m\<lparr>latency := Add (latency m)
                 (float64_value
                    (float64_div (float64_of_duration elapsed)
                       (ResponseTokens (TokenUsage (ModelResponse r)))))\<rparr>,
          Some (r\<lparr>ModelID := modelID m\<rparr>), None)"
  by (simp add: Chat_def)

lemma count_Add: "count (Add ma x) = count ma + 1"
  by (simp add: Add_def)

text \<open>
  C1, as stated: a successful response that reports zero response tokens adds no latency
  sample. The code has no such guard: with the response \<open>empty_reply\<close> after 200 ms the
  average of \<open>example_model\<close> has one sample, and its value is the quotient of the float
  division by zero, plus infinity.
\<close>

theorem Chat_zero_tokens_no_sample_counterexample:
  "ResponseTokens (TokenUsage (ModelResponse empty_reply)) = Float (F64 0) \<and>
   Chat example_model (Some empty_reply, None) 200000000 0 =
     Inr (example_model\<lparr>latency := (latency example_model)\<lparr>count := 1, valueNs := PosInf\<rparr>\<rparr>,
          Some (empty_reply\<lparr>ModelID := ''A''\<rparr>), None) \<and>
   (latency example_model)\<lparr>count := 1, valueNs := PosInf\<rparr> \<noteq> latency example_model"
proof -
  have t: "ResponseTokens (TokenUsage (ModelResponse empty_reply)) = Float (F64 0)"
    by (simp add: empty_reply_def)
  show ?thesis
    by (simp add: Chat_success t sample_200ms_no_token)
       (simp add: example_model_def NewLangModel_def NewMovingAverage_def Add_def fsub_def
          inf_signed_def)
qed

text \<open>
  C1, amended: a successful call whose response reports zero response tokens still adds
  exactly one latency sample: \<^verbatim>\<open>latency.Add\<close> is invoked on every successful call,
  whatever the response tokens are, and the count of samples grows by one. The division
  is a float division, which does not panic: with a zero divisor its result is an
  infinity or NaN.
\<close>

theorem Chat_adds_sample_without_guard:
  "Chat m (Some r, None) elapsed now =
     Inr (m\<lparr>latency := Add (latency m)
                 (float64_value
                    (float64_div (float64_of_duration elapsed)
                       (ResponseTokens (TokenUsage (ModelResponse r)))))\<rparr>,
          Some (r\<lparr>ModelID := modelID m\<rparr>), None)
   \<and> count (Add (latency m)
              (float64_value
                 (float64_div (float64_of_duration elapsed)
                    (ResponseTokens (TokenUsage (ModelResponse r))))))
       = count (latency m) + 1
   \<and> (is_zero (ResponseTokens (TokenUsage (ModelResponse r))) \<longrightarrow>
        is_nan (float64_div (float64_of_duration elapsed)
                  (ResponseTokens (TokenUsage (ModelResponse r))))
        \<or> is_inf (float64_div (float64_of_duration elapsed)
                    (ResponseTokens (TokenUsage (ModelResponse r)))))"
  by (simp add: Chat_success count_Add float64_div_zero)

theorem Chat_adds_sample_without_guard_witness:
  "is_zero (ResponseTokens (TokenUsage (ModelResponse empty_reply))) \<and>
   Chat example_model (Some empty_reply, None) 200000000 0 =
     Inr (example_model\<lparr>latency := Add (latency example_model) PosInf\<rparr>,
          Some (empty_reply\<lparr>ModelID := modelID example_model\<rparr>), None) \<and>
   count (Add (latency example_model) PosInf) = count (latency example_model) + 1 \<and>
   is_inf (float64_div (float64_of_duration 200000000)
             (ResponseTokens (TokenUsage (ModelResponse empty_reply))))"
proof -
  have t: "ResponseTokens (TokenUsage (ModelResponse empty_reply)) = Float (F64 0)"
    by (simp add: empty_reply_def)
  have q: "float64_div (float64_of_duration 200000000) (Float (F64 0)) = Float PosInf"
    by (simp add: float64_of_200ms float64_div_def is_nan_def is_inf_def is_zero_def
        signed_inf_def inf_signed_def)
  show ?thesis
    using Chat_adds_sample_without_guard [of example_model empty_reply 200000000 0]
    by (simp add: t q is_zero_def is_inf_def is_nan_def)
qed

text \<open>
  C2: when the client's error is a rate-limit error (\<^verbatim>\<open>errors.As\<close> finds one in the
  chain), Chat sets the tracker limited for the duration \<^verbatim>\<open>UntilReset()\<close> of that
  error, that is until now + untilReset, returns the client's error as it is, and leaves
  the error budget as it was: only the field \<open>rateLimit\<close> of the model changes.
\<close>

theorem Chat_rate_limit_error:
  assumes "errors_As_RateLimitError err = Some untilReset"
  shows "Chat m (resp, Some err) elapsed now =
           Inr (m\<lparr>rateLimit := SetLimited (rateLimit m) untilReset now\<rparr>, resp, Some err)
         \<and> errorBudget (m\<lparr>rateLimit := SetLimited (rateLimit m) untilReset now\<rparr>)
             = errorBudget m
         \<and> resetAt (SetLimited (rateLimit m) untilReset now) = Some (now + untilReset)"
  using assms by (simp add: Chat_def SetLimited_def)

theorem Chat_rate_limit_error_witness:
  "errors_As_RateLimitError (Wrapped ''provider'' (RateLimitError 10000000000))
     = Some 10000000000 \<and>
   Chat example_model (None :: UnifiedChatResponse option,
       Some (Wrapped ''provider'' (RateLimitError 10000000000))) 35 500 =
     Inr (limited_model, None, Some (Wrapped ''provider'' (RateLimitError 10000000000))) \<and>
   errorBudget limited_model = errorBudget example_model"
proof -
  have h: "errors_As_RateLimitError (Wrapped ''provider'' (RateLimitError 10000000000))
             = Some 10000000000"
    by simp
  show ?thesis
    using Chat_rate_limit_error
      [OF h, of example_model "None :: UnifiedChatResponse option" 35 500]
    by (simp add: limited_model_def SetLimited_def example_model_def NewLangModel_def
        NewRateLimitTracker_def)
qed

text \<open>
  C3: when the client's error is not a rate-limit error, Chat performs one
  \<^verbatim>\<open>Take(1)\<close> on the error budget and drops its boolean result, returns the client's
  error as it is, and leaves the latency average as it was. When the take succeeds, the
  budget holds one token less than after the refill.
\<close>

theorem Chat_other_error:
  assumes "errors_As_RateLimitError err = None"
  shows "Chat m (resp, Some err) elapsed now =
           Inr (m\<lparr>errorBudget := fst (Take (errorBudget m) 1 now)\<rparr>, resp, Some err)
         \<and> latency (m\<lparr>errorBudget := fst (Take (errorBudget m) 1 now)\<rparr>) = latency m
         \<and> (snd (Take (errorBudget m) 1 now) \<longrightarrow>
              tokens (fst (Take (errorBudget m) 1 now))
                = tokens (refill (errorBudget m) now) - 1)"
  using assms by (simp add: Chat_def Take_def Let_def)

theorem Chat_other_error_witness:
  "errors_As_RateLimitError (OtherError ''503'') = None \<and>
   Chat example_model (None :: UnifiedChatResponse option, Some (OtherError ''503'')) 35 500 =
     Inr (example_model\<lparr>errorBudget := (errorBudget example_model)\<lparr>tokens := 9\<rparr>\<rparr>,
          None, Some (OtherError ''503'')) \<and>
   latency (example_model\<lparr>errorBudget := (errorBudget example_model)\<lparr>tokens := 9\<rparr>\<rparr>)
     = latency example_model \<and>
   snd (Take (errorBudget example_model) 1 500) \<and>
   tokens (fst (Take (errorBudget example_model) 1 500)) = 9"
proof -
  have h: "errors_As_RateLimitError (OtherError ''503'') = None"
    by simp
  have t: "Take (errorBudget example_model) (Suc 0) 500
             = ((errorBudget example_model)\<lparr>tokens := 9\<rparr>, True)"
    by (simp add: Take_def refill_def refillIntervalNs_def example_model_def NewLangModel_def
        NewTokenBucket_def)
  show ?thesis
    using Chat_other_error
      [OF h, of example_model "None :: UnifiedChatResponse option" 35 500]
    by (simp add: t)
qed

section \<open>Health\<close>

text \<open>
  C4: \<^verbatim>\<open>Healthy()\<close> is true if and only if the rate-limit tracker is not limited at
  its clock reading and the error budget has tokens at its own; the tracker is limited
  when its reset instant is set and in the future, and the budget has tokens when it
  holds at least one after the refill.
\<close>

theorem Healthy_iff:
  "snd (Healthy m t1 t2) =
     (\<not> snd (Limited (rateLimit m) t1) \<and> snd (HasTokens (errorBudget m) t2))
   \<and> snd (Limited (rateLimit m) t1)
       = (case resetAt (rateLimit m) of None \<Rightarrow> False | Some t \<Rightarrow> t1 < t)
   \<and> snd (HasTokens (errorBudget m) t2) = (1 \<le> tokens (refill (errorBudget m) t2))"
  by (auto simp: Healthy_def Limited_def HasTokens_def Let_def
      split: option.splits prod.splits)

text \<open>
  C9, as stated: every model built by \<^verbatim>\<open>NewLangModel\<close> is healthy at once.
  \<^verbatim>\<open>NewLangModel\<close> takes the budget as it is: built with a budget of no token, the
  model has a full bucket of capacity 0, which has no token, and is not healthy.
\<close>

theorem NewLangModel_Healthy_counterexample:
  "Budget \<lparr>TimePerTokenMicro = 1000000, Budget = 0\<rparr> = 0 \<and>
   Healthy no_budget_model 5 7 = (no_budget_model, False) \<and>
   resetAt (rateLimit no_budget_model) = None \<and>
   tokens (errorBudget no_budget_model) = capacity (errorBudget no_budget_model)"
  by (simp add: Healthy_def no_budget_model_def NewLangModel_def NewRateLimitTracker_def
      NewTokenBucket_def Limited_def HasTokens_def refill_def refillIntervalNs_def Let_def)

text \<open>
  C9, amended: a model built by \<^verbatim>\<open>NewLangModel\<close> with a budget of at least one token
  is healthy at whatever instants its trackers read the clock: the rate-limit tracker
  starts with no reset instant, and the error budget starts full.
\<close>

theorem NewLangModel_Healthy:
  assumes "1 \<le> Budget budget"
  shows "snd (Healthy (NewLangModel mid cl budget latencyConfig w t0) t1 t2)
         \<and> resetAt (rateLimit (NewLangModel mid cl budget latencyConfig w t0)) = None
         \<and> tokens (errorBudget (NewLangModel mid cl budget latencyConfig w t0))
             = capacity (errorBudget (NewLangModel mid cl budget latencyConfig w t0))"
  using assms
  by (simp add: Healthy_def NewLangModel_def NewRateLimitTracker_def NewTokenBucket_def
      Limited_def HasTokens_def refill_def Let_def)

theorem NewLangModel_Healthy_witness:
  "1 \<le> Budget \<lparr>TimePerTokenMicro = 1000000, Budget = 10\<rparr> \<and>
   snd (Healthy example_model 5 7) \<and>
   resetAt (rateLimit example_model) = None \<and>
   tokens (errorBudget example_model) = 10"
proof -
  have h: "1 \<le> Budget \<lparr>TimePerTokenMicro = 1000000, Budget = 10\<rparr>"
    by simp
  show ?thesis
    using h NewLangModel_Healthy [OF h, of "''A''" "()"
        "\<lparr>Decay = F64 (1 / 10), WarmupSamples = 3, UpdateInterval = None\<rparr>" 1 0 5 7]
    by (simp add: example_model_def NewLangModel_def NewTokenBucket_def)
qed

section \<open>The success path of Chat\<close>

text \<open>
  C5, as stated: a success result's model id is non-empty. The model takes whatever id it
  was built with and Chat stamps it on the response: a model built with the empty id
  answers with the empty id.
\<close>

theorem Chat_ModelID_nonempty_counterexample:
  "Chat anonymous_model (Some full_reply, None) 200000000 0 =
     Inr (anonymous_model\<lparr>latency := Add (latency anonymous_model) (F64 2000000)\<rparr>,
          Some (full_reply\<lparr>ModelID := []\<rparr>), None) \<and>
   modelID anonymous_model = [] \<and> ModelID (full_reply\<lparr>ModelID := []\<rparr>) = []"
proof -
  have t: "ResponseTokens (TokenUsage (ModelResponse full_reply)) = Float (F64 100)"
    by (simp add: full_reply_def)
  show ?thesis
    by (simp add: Chat_success t sample_200ms_100_tokens)
       (simp add: anonymous_model_def NewLangModel_def)
qed

text \<open>
  C5, amended: when the client returns a response and a nil error, Chat returns that
  response with its \<^verbatim>\<open>ModelID\<close> set to the model's own id, and a nil error; the id of
  the result equals the id of the model that answered, and is non-empty whenever that
  model's id is.
\<close>

theorem Chat_stamps_ModelID:
  "Chat m (Some r, None) elapsed now =
     Inr (m\<lparr>latency := Add (latency m)
                 (float64_value
                    (float64_div (float64_of_duration elapsed)
                       (ResponseTokens (TokenUsage (ModelResponse r)))))\<rparr>,
          Some (r\<lparr>ModelID := modelID m\<rparr>), None)
   \<and> ModelID (r\<lparr>ModelID := modelID m\<rparr>) = modelID m
   \<and> (modelID m \<noteq> [] \<longrightarrow> ModelID (r\<lparr>ModelID := modelID m\<rparr>) \<noteq> [])"
  by (simp add: Chat_success)

theorem Chat_stamps_ModelID_witness:
  "modelID example_model \<noteq> [] \<and>
   Chat example_model (Some full_reply, None) 200000000 0 =
     Inr (example_model\<lparr>latency := Add (latency example_model) (F64 2000000)\<rparr>,
          Some (full_reply\<lparr>ModelID := ''A''\<rparr>), None) \<and>
   ModelID (full_reply\<lparr>ModelID := ''A''\<rparr>) \<noteq> []"
proof -
  have h: "modelID example_model = ''A''"
    by (simp add: example_model_def NewLangModel_def)
  have t: "ResponseTokens (TokenUsage (ModelResponse full_reply)) = Float (F64 100)"
    by (simp add: full_reply_def)
  show ?thesis
    using Chat_stamps_ModelID [of example_model full_reply 200000000 0]
    by (simp add: h t sample_200ms_100_tokens)
qed



text \<open>
  C10: on the success path the response that Chat returns is the client's response with
  only \<^verbatim>\<open>ModelID\<close> updated: \<^verbatim>\<open>ModelResponse\<close> and every further field are the
  client's. Of the model only the latency average is updated: the rate-limit tracker and
  the error budget are the ones before the call.
\<close>

theorem Chat_success_frame:
  "Chat m (Some r, None) elapsed now =
     Inr (m\<lparr>latency := Add (latency m)
                 (float64_value
                    (float64_div (float64_of_duration elapsed)
                       (ResponseTokens (TokenUsage (ModelResponse r)))))\<rparr>,
          Some (r\<lparr>ModelID := modelID m\<rparr>), None)
   \<and> ModelResponse (r\<lparr>ModelID := modelID m\<rparr>) = ModelResponse r
   \<and> UnifiedChatResponse.more (r\<lparr>ModelID := modelID m\<rparr>) = UnifiedChatResponse.more r
   \<and> rateLimit (m\<lparr>latency := l\<rparr>) = rateLimit m
   \<and> errorBudget (m\<lparr>latency := l\<rparr>) = errorBudget m"
  by (simp add: Chat_success)

section \<open>The token bucket\<close>

lemma refill_bounds:
  assumes "0 \<le> tokens b" and "tokens b \<le> capacity b"
  shows "0 \<le> tokens (refill b now) \<and> tokens (refill b now) \<le> capacity (refill b now)"
  using assms by (simp add: refill_def Let_def)

lemma Take_bounds:
  assumes "0 \<le> tokens b" and "tokens b \<le> capacity b"
  shows "0 \<le> tokens (fst (Take b n now)) \<and>
         tokens (fst (Take b n now)) \<le> capacity (fst (Take b n now))"
proof (cases "int n \<le> tokens (refill b now)")
  case True
  with refill_bounds [OF assms, of now] show ?thesis
    by (simp add: Take_def Let_def)
next
  case False
  with assms show ?thesis
    by (simp add: Take_def Let_def)
qed

lemma bucket_step_bounds:
  assumes "0 \<le> tokens b" and "tokens b \<le> capacity b"
  shows "0 \<le> tokens (bucket_step b x) \<and> tokens (bucket_step b x) \<le> capacity (bucket_step b x)"
proof (cases x)
  case (Pair now operation)
  show ?thesis
  proof (cases operation)
    case (OpTake n)
    with Pair Take_bounds [OF assms] show ?thesis by simp
  next
    case OpHasTokens
    with Pair refill_bounds [OF assms] show ?thesis by (simp add: HasTokens_def Let_def)
  qed
qed

lemma bucket_states_bounds:
  "0 \<le> tokens b \<Longrightarrow> tokens b \<le> capacity b \<Longrightarrow>
   list_all (\<lambda>s. 0 \<le> tokens s \<and> tokens s \<le> capacity s) (bucket_states b ops)"
proof (induction ops arbitrary: b)
  case Nil
  then show ?case by simp
next
  case (Cons x xs)
  from bucket_step_bounds [OF Cons.prems, of x] Cons.IH [of "bucket_step b x"] Cons.prems
  show ?case by simp
qed

lemma Take_false_unchanged: "\<not> snd (Take b n now) \<Longrightarrow> fst (Take b n now) = b"
  by (simp add: Take_def Let_def split: if_splits)

text \<open>
  C7: a bucket whose tokens are between 0 and its capacity keeps them there through any
  finite sequence of \<^verbatim>\<open>take\<close> and \<^verbatim>\<open>hasTokens\<close>, each at any clock reading: every
  state it goes through satisfies the bound. A \<^verbatim>\<open>take(n)\<close> that returns false leaves
  the bucket as it was.
\<close>

theorem TokenBucket_tokens_bounded:
  assumes "0 \<le> tokens b" and "tokens b \<le> capacity b"
  shows "list_all (\<lambda>s. 0 \<le> tokens s \<and> tokens s \<le> capacity s) (bucket_states b ops)
         \<and> (\<not> snd (Take b n now) \<longrightarrow> fst (Take b n now) = b)"
  using bucket_states_bounds [OF assms] Take_false_unchanged by blast

theorem TokenBucket_tokens_bounded_witness:
  "0 \<le> tokens small_bucket \<and> tokens small_bucket \<le> capacity small_bucket \<and>
   bucket_states small_bucket [(0, OpTake 1), (0, OpTake 1), (1000000000, OpHasTokens)]
     = [small_bucket, small_bucket\<lparr>tokens := 0\<rparr>, small_bucket\<lparr>tokens := 0\<rparr>,
        small_bucket\<lparr>tokens := 1, lastRefillNs := 1000000000\<rparr>] \<and>
   list_all (\<lambda>s. 0 \<le> tokens s \<and> tokens s \<le> capacity s)
     (bucket_states small_bucket [(0, OpTake 1), (0, OpTake 1), (1000000000, OpHasTokens)]) \<and>
   \<not> snd (Take (small_bucket\<lparr>tokens := 0\<rparr>) 1 0) \<and>
   fst (Take (small_bucket\<lparr>tokens := 0\<rparr>) 1 0) = small_bucket\<lparr>tokens := 0\<rparr>"
proof -
  have h1: "0 \<le> tokens small_bucket"
    by (simp add: small_bucket_def NewTokenBucket_def)
  have h2: "tokens small_bucket \<le> capacity small_bucket"
    by (simp add: small_bucket_def NewTokenBucket_def)
  have g1: "0 \<le> tokens (small_bucket\<lparr>tokens := 0\<rparr>)"
    by simp
  have g2: "tokens (small_bucket\<lparr>tokens := 0\<rparr>) \<le> capacity (small_bucket\<lparr>tokens := 0\<rparr>)"
    by (simp add: small_bucket_def NewTokenBucket_def)
  show ?thesis
    using TokenBucket_tokens_bounded
        [OF h1 h2, of "[(0, OpTake 1), (0, OpTake 1), (1000000000, OpHasTokens)]" 1 0]
      TokenBucket_tokens_bounded [OF g1 g2, of "[]" 1 0]
    by (simp add: small_bucket_def NewTokenBucket_def Take_def HasTokens_def refill_def
        refillIntervalNs_def Let_def)
qed

section \<open>The moving average\<close>

text \<open>
  C8: while fewer than \<open>warmupSamples\<close> samples have been seen, \<^verbatim>\<open>add\<close> moves the
  value to the arithmetic mean, \<open>v + (s - v) / (count + 1)\<close>; afterwards it is the
  weighted average \<open>v (1 - decay) + s decay\<close>; the count grows by one each time. With
  decay 0.1 and three warm-up samples, the samples 10, 20, 30 give the value 20, and the
  fourth sample 40 gives 22.
\<close>

theorem MovingAverage_Add_mean_then_ewma:
  "(count ma < warmupSamples ma \<and> valueNs ma = F64 v \<longrightarrow>
      valueNs (Add ma (F64 s)) = F64 (v + (s - v) / real (count ma + 1)))
   \<and> (\<not> count ma < warmupSamples ma \<and> valueNs ma = F64 v \<and> decay ma = F64 d \<longrightarrow>
      valueNs (Add ma (F64 s)) = F64 (v * (1 - d) + s * d))
   \<and> count (Add ma x) = count ma + 1
   \<and> Add (Add (Add (NewMovingAverage (F64 (1 / 10)) 3) (F64 10)) (F64 20)) (F64 30)
       = \<lparr>decay = F64 (1 / 10), warmupSamples = 3, count = 3, valueNs = F64 20\<rparr>
   \<and> Add \<lparr>decay = F64 (1 / 10), warmupSamples = 3, count = 3, valueNs = F64 20\<rparr> (F64 40)
       = \<lparr>decay = F64 (1 / 10), warmupSamples = 3, count = 4, valueNs = F64 22\<rparr>"
  by (simp add: Add_def NewMovingAverage_def fsub_def)

theorem MovingAverage_Add_mean_then_ewma_witness:
  "count (NewMovingAverage (F64 (1 / 10)) 3) < warmupSamples (NewMovingAverage (F64 (1 / 10)) 3) \<and>
   valueNs (NewMovingAverage (F64 (1 / 10)) 3) = F64 0 \<and>
   valueNs (Add (NewMovingAverage (F64 (1 / 10)) 3) (F64 10)) = F64 10 \<and>
   \<not> count \<lparr>decay = F64 (1 / 10), warmupSamples = 3, count = 3, valueNs = F64 20\<rparr>
       < warmupSamples \<lparr>decay = F64 (1 / 10), warmupSamples = 3, count = 3, valueNs = F64 20\<rparr> \<and>
   valueNs (Add \<lparr>decay = F64 (1 / 10), warmupSamples = 3, count = 3, valueNs = F64 20\<rparr> (F64 40))
     = F64 22"
proof -
  have h: "count (NewMovingAverage (F64 (1 / 10)) 3)
             < warmupSamples (NewMovingAverage (F64 (1 / 10)) 3)
           \<and> valueNs (NewMovingAverage (F64 (1 / 10)) 3) = F64 0"
    by (simp add: NewMovingAverage_def)
  show ?thesis
    using h
      MovingAverage_Add_mean_then_ewma [of "NewMovingAverage (F64 (1 / 10)) 3" 0 10 "1 / 10" NaN]
      MovingAverage_Add_mean_then_ewma
        [of "\<lparr>decay = F64 (1 / 10), warmupSamples = 3, count = 3, valueNs = F64 20\<rparr>"
            20 40 "1 / 10" NaN]
    by (simp add: NewMovingAverage_def)
qed

end
